theory Spec2Isabelle
  imports Main "HOL-Library.Sublist" "HOL-Library.AList"
begin

section \<open>Python values used by \<^verbatim>\<open>kibana_mcp/server.py\<close>\<close>

text \<open>
  A Python \<^verbatim>\<open>str\<close> is modelled as a \<^typ>\<open>string\<close>, each \<^typ>\<open>char\<close> standing for
  the code point of the same number (the range U+0000 to U+00FF).  \<^verbatim>\<open>os.getenv\<close> returns
  \<^verbatim>\<open>None\<close> for a variable that is not set, so the process environment is a map and a
  looked-up value is a \<^typ>\<open>string option\<close>.  Log calls have no effect on any value the
  program computes and are left out.
\<close>

type_synonym environ = "string \<rightharpoonup> string"

definition getenv :: "environ \<Rightarrow> string \<Rightarrow> string option" where
  "getenv env name = env name"

text \<open>Truth value of an \<^verbatim>\<open>Optional[str]\<close>: \<^verbatim>\<open>None\<close> and the empty string are false.\<close>

fun truthy :: "string option \<Rightarrow> bool" where
  "truthy None = False"
| "truthy (Some s) = (s \<noteq> [])"

text \<open>The string held by a value that has been tested to be true.\<close>

fun str_of :: "string option \<Rightarrow> string" where
  "str_of (Some s) = s"
| "str_of None = []"

text \<open>
  \<^verbatim>\<open>str.isspace\<close> on one code point below 256: TAB..CR, FS..US, SPACE, NEL and NBSP.
\<close>

definition py_isspace :: "char \<Rightarrow> bool" where
  "py_isspace c =
     (let n = (of_char c :: nat)
      in (9 \<le> n \<and> n \<le> 13) \<or> (28 \<le> n \<and> n \<le> 32) \<or> n = 133 \<or> n = 160)"

definition lstrip :: "string \<Rightarrow> string" where
  "lstrip s = dropWhile py_isspace s"

definition rstrip :: "string \<Rightarrow> string" where
  "rstrip s = rev (dropWhile py_isspace (rev s))"

text \<open>\<^verbatim>\<open>s.strip()\<close>: whitespace removed at both ends.\<close>

definition strip :: "string \<Rightarrow> string" where
  "strip s = rstrip (lstrip s)"

text \<open>\<^verbatim>\<open>s.startswith(p)\<close>.\<close>

definition startswith :: "string \<Rightarrow> string \<Rightarrow> bool" where
  "startswith s p = (take (length p) s = p)"

text \<open>
  The exceptions that \<^verbatim>\<open>server.py\<close> raises or handles.  \<open>NonException\<close> stands for
  a \<^verbatim>\<open>BaseException\<close> that is not an \<^verbatim>\<open>Exception\<close> (\<^verbatim>\<open>KeyboardInterrupt\<close>,
  \<^verbatim>\<open>SystemExit\<close>), which \<^verbatim>\<open>except Exception\<close> lets through.
\<close>

datatype exn =
    ValueError string
  | RuntimeError string
  | OtherException string
  | NonException string

fun is_Exception :: "exn \<Rightarrow> bool" where
  "is_Exception (NonException _) = False"
| "is_Exception _ = True"

fun is_RuntimeError :: "exn \<Rightarrow> bool" where
  "is_RuntimeError (RuntimeError _) = True"
| "is_RuntimeError _ = False"

section \<open>The HTTP client and its configuration\<close>

text \<open>
  \<^verbatim>\<open>httpx.AsyncClient(base_url=..., headers=..., timeout=30.0, verify=False, **auth_config)\<close>
  is modelled by the record of the arguments it is constructed from.  The header dictionary
  is an association list in insertion order; \<open>auth\<close> is \<open>None\<close> when \<^verbatim>\<open>auth_config\<close>
  is empty.  The timeout is in seconds.
\<close>

record AsyncClient =
  base_url :: string
  headers :: "(string \<times> string) list"
  timeout :: nat
  verify :: bool
  auth :: "(string \<times> string) option"

text \<open>The module's global variable \<^verbatim>\<open>http_client\<close>.\<close>

record globals =
  http_client :: "AsyncClient option"

definition url_not_set :: exn where
  "url_not_set = ValueError ''KIBANA_URL environment variable not set.''"

definition auth_not_configured :: exn where
  "auth_not_configured = ValueError
     ''Kibana authentication not configured. Set KIBANA_API_KEY or both KIBANA_USERNAME/PASSWORD.''"

text \<open>
  Line 44: the value stored under \<^verbatim>\<open>Authorization\<close> for a (truthy) API key.
\<close>

definition auth_header :: "string \<Rightarrow> string" where
  "auth_header encoded_api_key =
     (if startswith (strip encoded_api_key) ''ApiKey '' then encoded_api_key
      else ''ApiKey '' @ strip encoded_api_key)"

text \<open>
  \<^verbatim>\<open>configure_http_client\<close> (lines 26 to 58).  It either raises, leaving the global
  untouched, or assigns the new client to the global.
\<close>

definition configure_http_client :: "environ \<Rightarrow> globals \<Rightarrow> (exn + unit) \<times> globals" where
  "configure_http_client env g =
     (let kibana_url = getenv env ''KIBANA_URL'';
          encoded_api_key = getenv env ''KIBANA_API_KEY'';
          kibana_username = getenv env ''KIBANA_USERNAME'';
          kibana_password = getenv env ''KIBANA_PASSWORD''
      in
        if \<not> truthy kibana_url then (Inl url_not_set, g)
        else
          let hdrs = [(''kbn-xsrf'', ''true''), (''Content-Type'', ''application/json'')]
          in
            if truthy encoded_api_key then
              (Inr (),
               g\<lparr>http_client := Some
                  \<lparr>base_url = str_of kibana_url,
                   headers = AList.update ''Authorization''
                               (auth_header (str_of encoded_api_key)) hdrs,
                   timeout = 30, verify = False, auth = None\<rparr>\<rparr>)
            else if truthy kibana_username \<and> truthy kibana_password then
              (Inr (),
               g\<lparr>http_client := Some
                  \<lparr>base_url = str_of kibana_url, headers = hdrs,
                   timeout = 30, verify = False,
                   auth = Some (str_of kibana_username, str_of kibana_password)\<rparr>\<rparr>)
            else (Inl auth_not_configured, g))"

text \<open>Lookup in the header dictionary.\<close>

definition header :: "AsyncClient \<Rightarrow> string \<Rightarrow> string option" where
  "header c name = map_of (headers c) name"

section \<open>Tool handlers\<close>

text \<open>
  Keyword arguments are an association list from argument name to value.  A result
  envelope is a list of content items; \<^verbatim>\<open>types.TextContent(type="text", text=t)\<close> is
  \<open>TextContent t\<close>.
\<close>

datatype pyval = PStr string | PInt int | PStrList "string list"

type_synonym kwargs = "(string \<times> pyval) list"

datatype content = TextContent (text_of: string)

text \<open>
  Modelled from the spec: the errors a backend-call function raises.  The functions are
  in \<^verbatim>\<open>kibana_mcp.tools\<close>, whose source is not in the repository snapshot; the
  backend dependency contract (section 6) and the taxonomy (section 7) distinguish a
  connectivity failure, a timeout, a non-2xx response and a malformed response, and
  section 4.2 adds the unexpected internal fault.  Each carries its diagnostic; a rejected
  request carries the status code as well.
\<close>

datatype backend_error =
    BackendConnectivityError string
  | BackendTimeoutError string
  | BackendRejectedError nat string
  | BackendMalformedResponseError string
  | InternalFault string

text \<open>
  The backend-call functions (\<^verbatim>\<open>_call_tag_alert\<close>, \<^verbatim>\<open>_call_adjust_alert_status\<close>,
  \<^verbatim>\<open>_call_get_alerts\<close>) and the wrapper \<^verbatim>\<open>execute_tool_safely\<close> are imported from
  \<^verbatim>\<open>kibana_mcp.tools\<close>; the handlers take them as parameters.  A backend-call function
  acts on the state \<open>'w\<close> of the backend and returns a description or fails.
\<close>

type_synonym 'w tool_impl =
  "AsyncClient option \<Rightarrow> kwargs \<Rightarrow> 'w \<Rightarrow> (backend_error + string) \<times> 'w"

type_synonym 'w tool_result = "(exn + content list) \<times> 'w"

type_synonym 'w wrapper =
  "string \<Rightarrow> 'w tool_impl \<Rightarrow> AsyncClient option \<Rightarrow> kwargs \<Rightarrow> 'w \<Rightarrow> 'w tool_result"

text \<open>\<^verbatim>\<open>tag_alert\<close> (lines 87 to 97).\<close>

definition tag_alert ::
  "'w wrapper \<Rightarrow> 'w tool_impl \<Rightarrow> globals \<Rightarrow> string \<Rightarrow> string list \<Rightarrow> 'w \<Rightarrow> 'w tool_result" where
  "tag_alert safely call_tag_alert g alert_id tags w =
     safely ''tag_alert'' call_tag_alert (http_client g)
       [(''alert_id'', PStr alert_id), (''tags_to_add'', PStrList tags)] w"

definition valid_statuses :: "string list" where
  "valid_statuses = [''open'', ''acknowledged'', ''closed'']"

text \<open>
  \<^verbatim>\<open>repr\<close> of a string without quotes, backslashes or control characters, and of a list
  of such strings, as the f-string of line 105 renders \<^verbatim>\<open>valid_statuses\<close>.
\<close>

definition repr_str :: "string \<Rightarrow> string" where
  "repr_str s = [CHR 0x27] @ s @ [CHR 0x27]"

fun join :: "string \<Rightarrow> string list \<Rightarrow> string" where
  "join sep [] = []"
| "join sep [x] = x"
| "join sep (x # y # ys) = x @ sep @ join sep (y # ys)"

definition repr_list :: "string list \<Rightarrow> string" where
  "repr_list xs = ''['' @ join '', '' (map repr_str xs) @ '']''"

definition err_msg :: "string \<Rightarrow> string" where
  "err_msg new_status =
     ''Invalid status '' @ [CHR 0x27] @ new_status @ [CHR 0x27] @
     ''. Must be one of '' @ repr_list valid_statuses @ ''.''"

text \<open>\<^verbatim>\<open>adjust_alert_status\<close> (lines 99 to 116).\<close>

definition adjust_alert_status ::
  "'w wrapper \<Rightarrow> 'w tool_impl \<Rightarrow> globals \<Rightarrow> string \<Rightarrow> string \<Rightarrow> 'w \<Rightarrow> 'w tool_result" where
  "adjust_alert_status safely call_adjust_alert_status g alert_id new_status w =
     (if new_status \<notin> set valid_statuses then (Inr [TextContent (err_msg new_status)], w)
      else safely ''adjust_alert_status'' call_adjust_alert_status (http_client g)
             [(''alert_id'', PStr alert_id), (''new_status'', PStr new_status)] w)"

text \<open>
  \<^verbatim>\<open>get_alerts\<close> (lines 118 to 130).  An argument the caller leaves out is \<open>None\<close>
  and takes the default of the signature.
\<close>

definition get_alerts ::
  "'w wrapper \<Rightarrow> 'w tool_impl \<Rightarrow> globals \<Rightarrow> int option \<Rightarrow> string option \<Rightarrow> 'w \<Rightarrow> 'w tool_result" where
  "get_alerts safely call_get_alerts g limit_arg search_text_arg w =
     (let limit = (case limit_arg of None \<Rightarrow> 20 | Some n \<Rightarrow> n);
          search_text = (case search_text_arg of None \<Rightarrow> ''*'' | Some s \<Rightarrow> s)
      in safely ''get_alerts'' call_get_alerts (http_client g)
           [(''limit'', PInt limit), (''search_text'', PStr search_text)] w)"

section \<open>The safe execution wrapper\<close>

text \<open>
  Modelled from the spec: the text of a failure envelope.  Section 4.2 asks that it
  identify the tool name and a concise diagnostic and that each failure class have a
  message prefix of its own; the wording of the prefixes is not fixed there.
\<close>

fun diagnostic :: "backend_error \<Rightarrow> string" where
  "diagnostic (BackendConnectivityError d) = d"
| "diagnostic (BackendTimeoutError d) = d"
| "diagnostic (BackendRejectedError code d) = d"
| "diagnostic (BackendMalformedResponseError d) = d"
| "diagnostic (InternalFault d) = d"

fun failure_prefix :: "backend_error \<Rightarrow> string" where
  "failure_prefix (BackendConnectivityError d) = ''Connectivity error''"
| "failure_prefix (BackendTimeoutError d) = ''Timeout''"
| "failure_prefix (BackendRejectedError code d) = ''Backend rejected request''"
| "failure_prefix (BackendMalformedResponseError d) = ''Malformed backend response''"
| "failure_prefix (InternalFault d) = ''Unexpected error''"

definition failure_text :: "string \<Rightarrow> backend_error \<Rightarrow> string" where
  "failure_text tool_name e =
     failure_prefix e @ '' in tool '' @ tool_name @ '': '' @ diagnostic e"

text \<open>
  Modelled from the spec: \<^verbatim>\<open>execute_tool_safely\<close> of \<^verbatim>\<open>kibana_mcp.tools\<close>, whose
  source is not in the repository snapshot.  Section 4.2: it invokes the backend-call
  function with the client and the arguments; a return value is wrapped as a single-item
  text envelope; any error raised during the call is caught and converted into a
  single-item text envelope whose text identifies the tool name and a diagnostic, with a
  message prefix per failure class; the error is never re-raised.
\<close>

definition execute_tool_safely :: "'w wrapper" where
  "execute_tool_safely tool_name tool_impl_func client args w =
     (case tool_impl_func client args w of
        (Inr description, w') \<Rightarrow> (Inr [TextContent description], w')
      | (Inl e, w') \<Rightarrow> (Inr [TextContent (failure_text tool_name e)], w'))"

section \<open>Startup and shutdown\<close>

datatype event = LoopEntered | RequestServed string | LoopEnded | AcloseCalled

text \<open>
  How a call of \<^verbatim>\<open>mcp.run()\<close> goes: it raises before the serving loop is entered, or
  it enters the loop, serves the given requests and leaves the loop, by returning
  (\<open>None\<close>) or by raising.
\<close>

datatype mcp_outcome = NotStarted exn | Served "string list" "exn option"

text \<open>
  The thread \<^verbatim>\<open>run_server\<close> is called from.  Either an event loop is already running
  in it (\<open>Nested\<close>): then \<^verbatim>\<open>mcp.run()\<close> and \<^verbatim>\<open>asyncio.run\<close> both raise
  \<^verbatim>\<open>RuntimeError\<close> at once and run nothing.  Or none is (\<open>Fresh\<close>): then
  \<^verbatim>\<open>mcp.run()\<close> goes one of its ways, and \<^verbatim>\<open>asyncio.run\<close> runs the coroutine it is
  given, in which \<^verbatim>\<open>http_client.aclose()\<close> returns (\<open>None\<close>) or raises.
\<close>

datatype runtime = Nested | Fresh mcp_outcome "exn option"

fun mcp_run :: "runtime \<Rightarrow> mcp_outcome" where
  "mcp_run Nested = NotStarted (RuntimeError ''Already running asyncio in this thread'')"
| "mcp_run (Fresh m a) = m"

text \<open>What a call of \<^verbatim>\<open>mcp.run()\<close> adds to the event log, and what it raises.\<close>

fun loop_trace :: "mcp_outcome \<Rightarrow> event list" where
  "loop_trace (NotStarted e) = []"
| "loop_trace (Served rs e) = [LoopEntered] @ map RequestServed rs @ [LoopEnded]"

fun raised_by :: "mcp_outcome \<Rightarrow> exn option" where
  "raised_by (NotStarted e) = Some e"
| "raised_by (Served rs e) = e"

text \<open>A computation on the global and the event log that may raise.\<close>

type_synonym proc = "globals \<times> event list \<Rightarrow> exn option \<times> globals \<times> event list"

text \<open>
  \<^verbatim>\<open>close_http_client\<close> (lines 60 to 67), given how \<^verbatim>\<open>aclose()\<close> ends: the global is
  reset only after \<^verbatim>\<open>aclose()\<close> has returned.
\<close>

definition close_http_client :: "exn option \<Rightarrow> proc" where
  "close_http_client aclose = (\<lambda>(g, tr).
     (if http_client g \<noteq> None then
        (case aclose of
           Some e \<Rightarrow> (Some e, g, tr @ [AcloseCalled])
         | None \<Rightarrow> (None, g\<lparr>http_client := None\<rparr>, tr @ [AcloseCalled]))
      else (None, g, tr)))"

text \<open>\<^verbatim>\<open>asyncio.run(coro)\<close>.\<close>

fun asyncio_run :: "runtime \<Rightarrow> (exn option \<Rightarrow> proc) \<Rightarrow> proc" where
  "asyncio_run Nested coro s =
     (Some (RuntimeError ''asyncio.run() cannot be called from a running event loop''),
      fst s, snd s)"
| "asyncio_run (Fresh m a) coro s = coro a s"

text \<open>
  \<^verbatim>\<open>run_server\<close> (lines 132 to 155): the \<^verbatim>\<open>try\<close> body, the handler for
  \<^verbatim>\<open>Exception\<close>, then the \<^verbatim>\<open>finally\<close> block, whose own exception replaces a
  pending one.  The first component of the result is the exception that leaves
  \<^verbatim>\<open>run_server\<close>, if any.
\<close>

definition run_server :: "environ \<Rightarrow> runtime \<Rightarrow> globals \<Rightarrow> exn option \<times> globals \<times> event list" where
  "run_server env rt g0 =
     (let g1 = g0\<lparr>http_client := None\<rparr>;
          (body, g2, tr2) =
            (case configure_http_client env g1 of
               (Inl e, g) \<Rightarrow> (Some e, g, [])
             | (Inr u, g) \<Rightarrow> (raised_by (mcp_run rt), g, loop_trace (mcp_run rt)));
          pending = (case body of
                       Some e \<Rightarrow> if is_Exception e then None else Some e
                     | None \<Rightarrow> None);
          (fin, g3, tr3) =
            (if http_client g2 \<noteq> None then
               (case asyncio_run rt close_http_client (g2, tr2) of
                  (Some e, g, tr) \<Rightarrow> if is_RuntimeError e then (None, g, tr) else (Some e, g, tr)
                | (None, g, tr) \<Rightarrow> (None, g, tr))
             else (None, g2, tr2))
      in (case fin of Some e \<Rightarrow> Some e | None \<Rightarrow> pending, g3, tr3))"

text \<open>The properties of a run that the lifecycle claims speak about.\<close>

definition client_created :: "environ \<Rightarrow> bool" where
  "client_created env = (fst (configure_http_client env \<lparr>http_client = None\<rparr>) = Inr ())"

definition release_count :: "event list \<Rightarrow> nat" where
  "release_count tr = count_list tr AcloseCalled"

definition events :: "exn option \<times> globals \<times> event list \<Rightarrow> event list" where
  "events r = snd (snd r)"

definition final_client :: "exn option \<times> globals \<times> event list \<Rightarrow> AsyncClient option" where
  "final_client r = http_client (fst (snd r))"

section \<open>Sample inputs\<close>

definition no_client :: globals where
  "no_client = \<lparr>http_client = None\<rparr>"

definition env_api_key :: environ where
  "env_api_key = [''KIBANA_URL'' \<mapsto> ''https://kibana:5601'', ''KIBANA_API_KEY'' \<mapsto> '' abc  '']"

definition env_prefixed_key :: environ where
  "env_prefixed_key =
     [''KIBANA_URL'' \<mapsto> ''https://kibana:5601'', ''KIBANA_API_KEY'' \<mapsto> '' ApiKey abc'']"

definition env_basic :: environ where
  "env_basic = [''KIBANA_URL'' \<mapsto> ''https://kibana:5601'',
                ''KIBANA_USERNAME'' \<mapsto> ''elastic'', ''KIBANA_PASSWORD'' \<mapsto> ''changeme'']"

definition env_both :: environ where
  "env_both = [''KIBANA_URL'' \<mapsto> ''https://kibana:5601'', ''KIBANA_API_KEY'' \<mapsto> ''abc'',
               ''KIBANA_USERNAME'' \<mapsto> ''elastic'', ''KIBANA_PASSWORD'' \<mapsto> ''changeme'']"

definition env_neither :: environ where
  "env_neither = [''KIBANA_URL'' \<mapsto> ''https://kibana:5601'']"

definition env_no_url :: environ where
  "env_no_url = [''KIBANA_API_KEY'' \<mapsto> ''abc'']"

definition env_empty_url :: environ where
  "env_empty_url = [''KIBANA_URL'' \<mapsto> [],
                    ''KIBANA_USERNAME'' \<mapsto> ''elastic'', ''KIBANA_PASSWORD'' \<mapsto> ''changeme'']"

definition env_empty_key :: environ where
  "env_empty_key = [''KIBANA_URL'' \<mapsto> ''https://kibana:5601'', ''KIBANA_API_KEY'' \<mapsto> [],
                    ''KIBANA_USERNAME'' \<mapsto> ''elastic'', ''KIBANA_PASSWORD'' \<mapsto> ''changeme'']"

definition env_empty_password :: environ where
  "env_empty_password = [''KIBANA_URL'' \<mapsto> ''https://kibana:5601'',
                         ''KIBANA_USERNAME'' \<mapsto> ''elastic'', ''KIBANA_PASSWORD'' \<mapsto> []]"

text \<open>
  Backends whose state is the list of argument bags they were called with: one that
  accepts every call, one that fails every call with a given error.
\<close>

definition recording_backend :: "(kwargs list) tool_impl" where
  "recording_backend c args w = (Inr ''ok'', w @ [args])"

definition failing_backend :: "backend_error \<Rightarrow> (kwargs list) tool_impl" where
  "failing_backend e c args w = (Inl e, w @ [args])"

text \<open>
  Runs of the server from a thread without an event loop: a loop that serves two requests
  and returns; a loop that fails after one request; a loop left by
  \<^verbatim>\<open>KeyboardInterrupt\<close>; and a \<^verbatim>\<open>mcp.run()\<close> that fails before its loop starts.
\<close>

definition rt_normal :: runtime where
  "rt_normal = Fresh (Served [''get_alerts'', ''tag_alert''] None) None"

definition rt_crash :: runtime where
  "rt_crash = Fresh (Served [''get_alerts''] (Some (OtherException ''connection reset''))) None"

definition rt_interrupt :: runtime where
  "rt_interrupt = Fresh (Served [] (Some (NonException ''KeyboardInterrupt''))) None"

definition rt_not_started :: runtime where
  "rt_not_started = Fresh (NotStarted (OtherException ''transport unavailable'')) None"

definition env_empty_key_only :: environ where
  "env_empty_key_only = [''KIBANA_URL'' \<mapsto> ''https://kibana:5601'', ''KIBANA_API_KEY'' \<mapsto> []]"

definition env_key_empty_password :: environ where
  "env_key_empty_password =
     [''KIBANA_URL'' \<mapsto> ''https://kibana:5601'', ''KIBANA_API_KEY'' \<mapsto> ''abc'',
      ''KIBANA_USERNAME'' \<mapsto> ''elastic'', ''KIBANA_PASSWORD'' \<mapsto> []]"

lemmas sample_envs =
  no_client_def env_api_key_def env_prefixed_key_def env_basic_def env_both_def env_neither_def
  env_no_url_def env_empty_url_def env_empty_key_def env_empty_password_def
  env_empty_key_only_def env_key_empty_password_def

lemmas string_ops = strip_def lstrip_def rstrip_def startswith_def py_isspace_def

section \<open>Credential resolution\<close>

lemma configure_no_url:
  "\<not> truthy (getenv env ''KIBANA_URL'') \<Longrightarrow>
     configure_http_client env g = (Inl url_not_set, g)"
  by (simp add: configure_http_client_def Let_def)

lemma configure_api_key:
  assumes "truthy (getenv env ''KIBANA_URL'')" and "truthy (getenv env ''KIBANA_API_KEY'')"
  shows "configure_http_client env g =
     (Inr (), g\<lparr>http_client := Some
        \<lparr>base_url = str_of (getenv env ''KIBANA_URL''),
         headers = [(''kbn-xsrf'', ''true''), (''Content-Type'', ''application/json''),
                    (''Authorization'', auth_header (str_of (getenv env ''KIBANA_API_KEY'')))],
         timeout = 30, verify = False, auth = None\<rparr>\<rparr>)"
  using assms by (simp add: configure_http_client_def Let_def)

lemma configure_basic:
  assumes "truthy (getenv env ''KIBANA_URL'')" and "\<not> truthy (getenv env ''KIBANA_API_KEY'')"
    and "truthy (getenv env ''KIBANA_USERNAME'')" and "truthy (getenv env ''KIBANA_PASSWORD'')"
  shows "configure_http_client env g =
     (Inr (), g\<lparr>http_client := Some
        \<lparr>base_url = str_of (getenv env ''KIBANA_URL''),
         headers = [(''kbn-xsrf'', ''true''), (''Content-Type'', ''application/json'')],
         timeout = 30, verify = False,
         auth = Some (str_of (getenv env ''KIBANA_USERNAME''),
                      str_of (getenv env ''KIBANA_PASSWORD''))\<rparr>\<rparr>)"
  using assms by (simp add: configure_http_client_def Let_def)

lemma configure_no_credentials:
  assumes "truthy (getenv env ''KIBANA_URL'')" and "\<not> truthy (getenv env ''KIBANA_API_KEY'')"
    and "\<not> (truthy (getenv env ''KIBANA_USERNAME'') \<and> truthy (getenv env ''KIBANA_PASSWORD''))"
  shows "configure_http_client env g = (Inl auth_not_configured, g)"
  using assms by (auto simp add: configure_http_client_def Let_def)

lemma configure_cases:
  obtains (no_url) "\<not> truthy (getenv env ''KIBANA_URL'')"
  | (api_key) "truthy (getenv env ''KIBANA_URL'')" "truthy (getenv env ''KIBANA_API_KEY'')"
  | (basic) "truthy (getenv env ''KIBANA_URL'')" "\<not> truthy (getenv env ''KIBANA_API_KEY'')"
      "truthy (getenv env ''KIBANA_USERNAME'')" "truthy (getenv env ''KIBANA_PASSWORD'')"
  | (none) "truthy (getenv env ''KIBANA_URL'')" "\<not> truthy (getenv env ''KIBANA_API_KEY'')"
      "\<not> (truthy (getenv env ''KIBANA_USERNAME'') \<and> truthy (getenv env ''KIBANA_PASSWORD''))"
  by blast

text \<open>
  C6.  When the base URL is absent or empty, resolution raises the error for the missing
  URL whatever the other variables hold, and the global client is left as it was: the
  check precedes the choice of an authentication method and the construction of a client.
  The source's error is \<^verbatim>\<open>ValueError("KIBANA_URL environment variable not set.")\<close>.
\<close>

theorem missing_base_url_fails:
  "\<not> truthy (getenv env ''KIBANA_URL'') \<Longrightarrow>
     configure_http_client env g =
       (Inl (ValueError ''KIBANA_URL environment variable not set.''), g)"
  by (simp add: configure_no_url url_not_set_def)

theorem missing_base_url_fails_witness:
  "\<not> truthy (getenv env_no_url ''KIBANA_URL'') \<and>
   configure_http_client env_no_url no_client =
     (Inl (ValueError ''KIBANA_URL environment variable not set.''), no_client) \<and>
   \<not> truthy (getenv env_empty_url ''KIBANA_URL'') \<and>
   configure_http_client env_empty_url no_client =
     (Inl (ValueError ''KIBANA_URL environment variable not set.''), no_client)"
  using missing_base_url_fails [of env_no_url no_client]
        missing_base_url_fails [of env_empty_url no_client]
  by (simp add: getenv_def sample_envs)

text \<open>
  C4.  For a non-empty API key \<open>k\<close> (and a base URL), the \<^verbatim>\<open>Authorization\<close> header of
  the client is \<open>k\<close> itself, untrimmed, when \<open>k\<close> trimmed of surrounding whitespace
  starts with \<^verbatim>\<open>"ApiKey "\<close>; otherwise it is \<^verbatim>\<open>"ApiKey"\<close>, one space, and the
  trimmed key.
\<close>

theorem api_key_header_normalised:
  assumes "truthy (getenv env ''KIBANA_URL'')"
    and "getenv env ''KIBANA_API_KEY'' = Some k" and "k \<noteq> []"
  shows "\<exists>c. configure_http_client env g = (Inr (), g\<lparr>http_client := Some c\<rparr>) \<and>
             header c ''Authorization'' =
               Some (if startswith (strip k) ''ApiKey '' then k
                     else ''ApiKey'' @ '' '' @ strip k)"
proof -
  let ?c = "\<lparr>base_url = str_of (getenv env ''KIBANA_URL''),
         headers = [(''kbn-xsrf'', ''true''), (''Content-Type'', ''application/json''),
                    (''Authorization'', auth_header k)],
         timeout = 30, verify = False, auth = None\<rparr>"
  from assms have "truthy (getenv env ''KIBANA_API_KEY'')" by simp
  from configure_api_key [OF assms(1) this, of g] assms(2)
  have "configure_http_client env g = (Inr (), g\<lparr>http_client := Some ?c\<rparr>)" by simp
  moreover have "header ?c ''Authorization'' =
      Some (if startswith (strip k) ''ApiKey '' then k else ''ApiKey'' @ '' '' @ strip k)"
    by (simp add: header_def auth_header_def)
  ultimately show ?thesis by blast
qed

theorem api_key_header_normalised_witness:
  "truthy (getenv env_api_key ''KIBANA_URL'') \<and>
   getenv env_api_key ''KIBANA_API_KEY'' = Some '' abc  '' \<and> '' abc  '' \<noteq> [] \<and>
   (\<exists>c. configure_http_client env_api_key no_client = (Inr (), no_client\<lparr>http_client := Some c\<rparr>) \<and>
        header c ''Authorization'' = Some ''ApiKey abc'') \<and>
   truthy (getenv env_prefixed_key ''KIBANA_URL'') \<and>
   getenv env_prefixed_key ''KIBANA_API_KEY'' = Some '' ApiKey abc'' \<and> '' ApiKey abc'' \<noteq> [] \<and>
   (\<exists>c. configure_http_client env_prefixed_key no_client =
          (Inr (), no_client\<lparr>http_client := Some c\<rparr>) \<and>
        header c ''Authorization'' = Some '' ApiKey abc'')"
  using api_key_header_normalised [of env_api_key "'' abc  ''" no_client]
        api_key_header_normalised [of env_prefixed_key "'' ApiKey abc''" no_client]
  by (simp add: getenv_def env_api_key_def env_prefixed_key_def string_ops)

text \<open>
  C7.  Whenever resolution succeeds, by either authentication method, the client it
  stored carries \<^verbatim>\<open>kbn-xsrf: true\<close> and \<^verbatim>\<open>Content-Type: application/json\<close> among
  its headers.
\<close>

theorem client_always_has_fixed_headers:
  assumes "configure_http_client env g = (Inr (), g')"
  shows "\<exists>c. http_client g' = Some c \<and>
             header c ''kbn-xsrf'' = Some ''true'' \<and>
             header c ''Content-Type'' = Some ''application/json''"
proof (cases rule: configure_cases [of env])
  case no_url
  with assms show ?thesis by (simp add: configure_no_url)
next
  case api_key
  with assms show ?thesis by (auto simp add: configure_api_key header_def)
next
  case basic
  with assms show ?thesis by (auto simp add: configure_basic header_def)
next
  case none
  with assms show ?thesis by (simp add: configure_no_credentials)
qed

theorem client_always_has_fixed_headers_witness:
  "(\<exists>g'. configure_http_client env_api_key no_client = (Inr (), g') \<and>
      (\<exists>c. http_client g' = Some c \<and> header c ''kbn-xsrf'' = Some ''true'' \<and>
           header c ''Content-Type'' = Some ''application/json'' \<and>
           header c ''Authorization'' = Some ''ApiKey abc'')) \<and>
   (\<exists>g'. configure_http_client env_basic no_client = (Inr (), g') \<and>
      (\<exists>c. http_client g' = Some c \<and> header c ''kbn-xsrf'' = Some ''true'' \<and>
           header c ''Content-Type'' = Some ''application/json'' \<and>
           auth c = Some (''elastic'', ''changeme'')))"
proof -
  have a: "truthy (getenv env_api_key ''KIBANA_URL'')" "truthy (getenv env_api_key ''KIBANA_API_KEY'')"
    by (simp_all add: getenv_def env_api_key_def)
  have b: "truthy (getenv env_basic ''KIBANA_URL'')" "\<not> truthy (getenv env_basic ''KIBANA_API_KEY'')"
    "truthy (getenv env_basic ''KIBANA_USERNAME'')" "truthy (getenv env_basic ''KIBANA_PASSWORD'')"
    by (simp_all add: getenv_def env_basic_def)
  note ka = configure_api_key [OF a, of no_client]
  note kb = configure_basic [OF b, of no_client]
  from client_always_has_fixed_headers [OF ka] client_always_has_fixed_headers [OF kb]
  show ?thesis
    unfolding ka kb
    by (simp add: header_def getenv_def env_api_key_def env_basic_def auth_header_def string_ops)
qed

text \<open>
  C10.  Whenever resolution succeeds, by either authentication method, the client it
  stored has certificate verification switched off.
\<close>

theorem client_never_verifies_tls:
  assumes "configure_http_client env g = (Inr (), g')"
  shows "\<exists>c. http_client g' = Some c \<and> verify c = False"
proof (cases rule: configure_cases [of env])
  case no_url
  with assms show ?thesis by (simp add: configure_no_url)
next
  case api_key
  with assms show ?thesis by (auto simp add: configure_api_key)
next
  case basic
  with assms show ?thesis by (auto simp add: configure_basic)
next
  case none
  with assms show ?thesis by (simp add: configure_no_credentials)
qed

theorem client_never_verifies_tls_witness:
  "(\<exists>g'. configure_http_client env_both no_client = (Inr (), g') \<and>
      (\<exists>c. http_client g' = Some c \<and> verify c = False \<and> auth c = None)) \<and>
   (\<exists>g'. configure_http_client env_basic no_client = (Inr (), g') \<and>
      (\<exists>c. http_client g' = Some c \<and> verify c = False \<and>
           auth c = Some (''elastic'', ''changeme'')))"
proof -
  have a: "truthy (getenv env_both ''KIBANA_URL'')" "truthy (getenv env_both ''KIBANA_API_KEY'')"
    by (simp_all add: getenv_def env_both_def)
  have b: "truthy (getenv env_basic ''KIBANA_URL'')" "\<not> truthy (getenv env_basic ''KIBANA_API_KEY'')"
    "truthy (getenv env_basic ''KIBANA_USERNAME'')" "truthy (getenv env_basic ''KIBANA_PASSWORD'')"
    by (simp_all add: getenv_def env_basic_def)
  note ka = configure_api_key [OF a, of no_client]
  note kb = configure_basic [OF b, of no_client]
  from client_never_verifies_tls [OF ka] client_never_verifies_tls [OF kb]
  show ?thesis
    unfolding ka kb
    by (simp add: getenv_def env_basic_def)
qed

text \<open>
  C2.  Given a base URL: with only an API key, the client has an \<^verbatim>\<open>Authorization\<close>
  header and no basic-auth pair; with only a username and password, it has the pair as
  transport-level basic auth and no \<^verbatim>\<open>Authorization\<close> header; with both, it is
  configured as for the API key alone; with neither, resolution raises the error for
  missing authentication and the global client is left as it was.  A value is set when it
  is present and not empty.
\<close>

theorem credential_configurations:
  assumes "truthy (getenv env ''KIBANA_URL'')"
  shows
    "(truthy (getenv env ''KIBANA_API_KEY'') \<and>
      \<not> (truthy (getenv env ''KIBANA_USERNAME'') \<and> truthy (getenv env ''KIBANA_PASSWORD'')) \<longrightarrow>
        (\<exists>c. configure_http_client env g = (Inr (), g\<lparr>http_client := Some c\<rparr>) \<and>
             header c ''Authorization'' =
               Some (auth_header (str_of (getenv env ''KIBANA_API_KEY''))) \<and>
             auth c = None)) \<and>
     (\<not> truthy (getenv env ''KIBANA_API_KEY'') \<and>
      truthy (getenv env ''KIBANA_USERNAME'') \<and> truthy (getenv env ''KIBANA_PASSWORD'') \<longrightarrow>
        (\<exists>c. configure_http_client env g = (Inr (), g\<lparr>http_client := Some c\<rparr>) \<and>
             auth c = Some (str_of (getenv env ''KIBANA_USERNAME''),
                            str_of (getenv env ''KIBANA_PASSWORD'')) \<and>
             header c ''Authorization'' = None)) \<and>
     (truthy (getenv env ''KIBANA_API_KEY'') \<and>
      truthy (getenv env ''KIBANA_USERNAME'') \<and> truthy (getenv env ''KIBANA_PASSWORD'') \<longrightarrow>
        (\<exists>c. configure_http_client env g = (Inr (), g\<lparr>http_client := Some c\<rparr>) \<and>
             header c ''Authorization'' =
               Some (auth_header (str_of (getenv env ''KIBANA_API_KEY''))) \<and>
             auth c = None)) \<and>
     (\<not> truthy (getenv env ''KIBANA_API_KEY'') \<and>
      \<not> (truthy (getenv env ''KIBANA_USERNAME'') \<and> truthy (getenv env ''KIBANA_PASSWORD'')) \<longrightarrow>
        configure_http_client env g =
          (Inl (ValueError
             ''Kibana authentication not configured. Set KIBANA_API_KEY or both KIBANA_USERNAME/PASSWORD.''),
           g))"
proof -
  let ?k = "\<lparr>base_url = str_of (getenv env ''KIBANA_URL''),
         headers = [(''kbn-xsrf'', ''true''), (''Content-Type'', ''application/json''),
                    (''Authorization'', auth_header (str_of (getenv env ''KIBANA_API_KEY'')))],
         timeout = 30, verify = False, auth = None\<rparr>"
  let ?b = "\<lparr>base_url = str_of (getenv env ''KIBANA_URL''),
         headers = [(''kbn-xsrf'', ''true''), (''Content-Type'', ''application/json'')],
         timeout = 30, verify = False,
         auth = Some (str_of (getenv env ''KIBANA_USERNAME''),
                      str_of (getenv env ''KIBANA_PASSWORD''))\<rparr>"
  have key: "\<exists>c. configure_http_client env g = (Inr (), g\<lparr>http_client := Some c\<rparr>) \<and>
             header c ''Authorization'' =
               Some (auth_header (str_of (getenv env ''KIBANA_API_KEY''))) \<and>
             auth c = None"
    if "truthy (getenv env ''KIBANA_API_KEY'')"
  proof -
    have "configure_http_client env g = (Inr (), g\<lparr>http_client := Some ?k\<rparr>)"
      using configure_api_key [OF assms that] .
    moreover have "header ?k ''Authorization'' =
        Some (auth_header (str_of (getenv env ''KIBANA_API_KEY'')))"
      by (simp add: header_def)
    moreover have "auth ?k = None" by simp
    ultimately show ?thesis by blast
  qed
  have basic: "\<exists>c. configure_http_client env g = (Inr (), g\<lparr>http_client := Some c\<rparr>) \<and>
             auth c = Some (str_of (getenv env ''KIBANA_USERNAME''),
                            str_of (getenv env ''KIBANA_PASSWORD'')) \<and>
             header c ''Authorization'' = None"
    if "\<not> truthy (getenv env ''KIBANA_API_KEY'')"
      and "truthy (getenv env ''KIBANA_USERNAME'')" and "truthy (getenv env ''KIBANA_PASSWORD'')"
  proof -
    have "configure_http_client env g = (Inr (), g\<lparr>http_client := Some ?b\<rparr>)"
      using configure_basic [OF assms that] .
    moreover have "header ?b ''Authorization'' = None"
      by (simp add: header_def)
    moreover have "auth ?b = Some (str_of (getenv env ''KIBANA_USERNAME''),
                            str_of (getenv env ''KIBANA_PASSWORD''))" by simp
    ultimately show ?thesis by blast
  qed
  have none: "configure_http_client env g =
          (Inl (ValueError
             ''Kibana authentication not configured. Set KIBANA_API_KEY or both KIBANA_USERNAME/PASSWORD.''),
           g)"
    if "\<not> truthy (getenv env ''KIBANA_API_KEY'')"
      and "\<not> (truthy (getenv env ''KIBANA_USERNAME'') \<and> truthy (getenv env ''KIBANA_PASSWORD''))"
    using configure_no_credentials [OF assms that] by (simp add: auth_not_configured_def)
  from key basic none show ?thesis by blast
qed

theorem credential_configurations_witness:
  "truthy (getenv env_api_key ''KIBANA_URL'') \<and> truthy (getenv env_basic ''KIBANA_URL'') \<and>
   truthy (getenv env_both ''KIBANA_URL'') \<and> truthy (getenv env_neither ''KIBANA_URL'') \<and>
   (\<exists>c. configure_http_client env_api_key no_client = (Inr (), no_client\<lparr>http_client := Some c\<rparr>) \<and>
        header c ''Authorization'' = Some ''ApiKey abc'' \<and> auth c = None) \<and>
   (\<exists>c. configure_http_client env_basic no_client = (Inr (), no_client\<lparr>http_client := Some c\<rparr>) \<and>
        auth c = Some (''elastic'', ''changeme'') \<and> header c ''Authorization'' = None) \<and>
   (\<exists>c. configure_http_client env_both no_client = (Inr (), no_client\<lparr>http_client := Some c\<rparr>) \<and>
        header c ''Authorization'' = Some ''ApiKey abc'' \<and> auth c = None) \<and>
   configure_http_client env_neither no_client =
     (Inl (ValueError
        ''Kibana authentication not configured. Set KIBANA_API_KEY or both KIBANA_USERNAME/PASSWORD.''),
      no_client)"
proof -
  have u: "truthy (getenv env_api_key ''KIBANA_URL'')" "truthy (getenv env_basic ''KIBANA_URL'')"
    "truthy (getenv env_both ''KIBANA_URL'')" "truthy (getenv env_neither ''KIBANA_URL'')"
    by (simp_all add: getenv_def sample_envs)
  from credential_configurations [OF u(1), of no_client]
  have 1: "\<exists>c. configure_http_client env_api_key no_client = (Inr (), no_client\<lparr>http_client := Some c\<rparr>) \<and>
        header c ''Authorization'' = Some ''ApiKey abc'' \<and> auth c = None"
    by (simp add: getenv_def env_api_key_def auth_header_def string_ops)
  from credential_configurations [OF u(2), of no_client]
  have 2: "\<exists>c. configure_http_client env_basic no_client = (Inr (), no_client\<lparr>http_client := Some c\<rparr>) \<and>
        auth c = Some (''elastic'', ''changeme'') \<and> header c ''Authorization'' = None"
    by (simp add: getenv_def env_basic_def)
  from credential_configurations [OF u(3), of no_client]
  have 3: "\<exists>c. configure_http_client env_both no_client = (Inr (), no_client\<lparr>http_client := Some c\<rparr>) \<and>
        header c ''Authorization'' = Some ''ApiKey abc'' \<and> auth c = None"
    by (simp add: getenv_def env_both_def auth_header_def string_ops)
  from credential_configurations [OF u(4), of no_client]
  have 4: "configure_http_client env_neither no_client =
     (Inl (ValueError
        ''Kibana authentication not configured. Set KIBANA_API_KEY or both KIBANA_USERNAME/PASSWORD.''),
      no_client)"
    by (simp add: getenv_def env_neither_def)
  from u 1 2 3 4 show ?thesis by blast
qed

text \<open>
  C9.  Presence of a credential is its truth value.  An API key that is the empty string
  counts as absent: with a username and a password the resolver then builds the basic-auth
  client, with no \<^verbatim>\<open>Authorization\<close> header, and without them it raises the error for
  missing authentication; in every case the outcome is that of the same environment
  without the key.  A pair with an empty member counts as absent: without a non-empty API
  key the resolver raises that error, and with one it builds the API-key client, without
  basic auth; in every case the outcome is that of the same environment without the pair.
\<close>

theorem empty_credentials_are_absent:
  "(getenv env ''KIBANA_API_KEY'' = Some [] \<longrightarrow>
      configure_http_client env g = configure_http_client (env(''KIBANA_API_KEY'' := None)) g) \<and>
   (getenv env ''KIBANA_USERNAME'' = Some [] \<or> getenv env ''KIBANA_PASSWORD'' = Some [] \<longrightarrow>
      configure_http_client env g =
        configure_http_client (env(''KIBANA_USERNAME'' := None, ''KIBANA_PASSWORD'' := None)) g) \<and>
   (truthy (getenv env ''KIBANA_URL'') \<and>
    (getenv env ''KIBANA_API_KEY'' = None \<or> getenv env ''KIBANA_API_KEY'' = Some []) \<and>
    (getenv env ''KIBANA_USERNAME'' = Some [] \<or> getenv env ''KIBANA_PASSWORD'' = Some []) \<longrightarrow>
      configure_http_client env g =
        (Inl (ValueError
           ''Kibana authentication not configured. Set KIBANA_API_KEY or both KIBANA_USERNAME/PASSWORD.''),
         g)) \<and>
   (truthy (getenv env ''KIBANA_URL'') \<and> getenv env ''KIBANA_API_KEY'' = Some [] \<and>
    getenv env ''KIBANA_USERNAME'' = Some u \<and> u \<noteq> [] \<and>
    getenv env ''KIBANA_PASSWORD'' = Some p \<and> p \<noteq> [] \<longrightarrow>
      (\<exists>c. configure_http_client env g = (Inr (), g\<lparr>http_client := Some c\<rparr>) \<and>
           auth c = Some (u, p) \<and> header c ''Authorization'' = None)) \<and>
   (truthy (getenv env ''KIBANA_URL'') \<and> getenv env ''KIBANA_API_KEY'' = Some [] \<and>
    \<not> (truthy (getenv env ''KIBANA_USERNAME'') \<and> truthy (getenv env ''KIBANA_PASSWORD'')) \<longrightarrow>
      configure_http_client env g =
        (Inl (ValueError
           ''Kibana authentication not configured. Set KIBANA_API_KEY or both KIBANA_USERNAME/PASSWORD.''),
         g)) \<and>
   (truthy (getenv env ''KIBANA_URL'') \<and>
    getenv env ''KIBANA_API_KEY'' = Some k \<and> k \<noteq> [] \<and>
    (getenv env ''KIBANA_USERNAME'' = Some [] \<or> getenv env ''KIBANA_PASSWORD'' = Some []) \<longrightarrow>
      (\<exists>c. configure_http_client env g = (Inr (), g\<lparr>http_client := Some c\<rparr>) \<and>
           auth c = None \<and> header c ''Authorization'' = Some (auth_header k)))"
proof (intro conjI impI)
  assume "getenv env ''KIBANA_API_KEY'' = Some []"
  then show "configure_http_client env g = configure_http_client (env(''KIBANA_API_KEY'' := None)) g"
    by (simp add: configure_http_client_def getenv_def Let_def)
next
  assume "getenv env ''KIBANA_USERNAME'' = Some [] \<or> getenv env ''KIBANA_PASSWORD'' = Some []"
  then have "\<not> (truthy (getenv env ''KIBANA_USERNAME'') \<and> truthy (getenv env ''KIBANA_PASSWORD''))"
    by auto
  then show "configure_http_client env g =
        configure_http_client (env(''KIBANA_USERNAME'' := None, ''KIBANA_PASSWORD'' := None)) g"
    by (auto simp add: configure_http_client_def getenv_def Let_def)
next
  assume a: "truthy (getenv env ''KIBANA_URL'') \<and>
    (getenv env ''KIBANA_API_KEY'' = None \<or> getenv env ''KIBANA_API_KEY'' = Some []) \<and>
    (getenv env ''KIBANA_USERNAME'' = Some [] \<or> getenv env ''KIBANA_PASSWORD'' = Some [])"
  then have "\<not> truthy (getenv env ''KIBANA_API_KEY'')"
    and "\<not> (truthy (getenv env ''KIBANA_USERNAME'') \<and> truthy (getenv env ''KIBANA_PASSWORD''))"
    by auto
  with a show "configure_http_client env g =
        (Inl (ValueError
           ''Kibana authentication not configured. Set KIBANA_API_KEY or both KIBANA_USERNAME/PASSWORD.''),
         g)"
    by (simp add: configure_no_credentials auth_not_configured_def)
next
  assume a: "truthy (getenv env ''KIBANA_URL'') \<and> getenv env ''KIBANA_API_KEY'' = Some [] \<and>
    getenv env ''KIBANA_USERNAME'' = Some u \<and> u \<noteq> [] \<and>
    getenv env ''KIBANA_PASSWORD'' = Some p \<and> p \<noteq> []"
  let ?b = "\<lparr>base_url = str_of (getenv env ''KIBANA_URL''),
         headers = [(''kbn-xsrf'', ''true''), (''Content-Type'', ''application/json'')],
         timeout = 30, verify = False, auth = Some (u, p)\<rparr>"
  from a have "truthy (getenv env ''KIBANA_URL'')" "\<not> truthy (getenv env ''KIBANA_API_KEY'')"
    "truthy (getenv env ''KIBANA_USERNAME'')" "truthy (getenv env ''KIBANA_PASSWORD'')"
    by simp_all
  from configure_basic [OF this, of g] a
  have "configure_http_client env g = (Inr (), g\<lparr>http_client := Some ?b\<rparr>)" by simp
  moreover have "auth ?b = Some (u, p)" by simp
  moreover have "header ?b ''Authorization'' = None" by (simp add: header_def)
  ultimately show "\<exists>c. configure_http_client env g = (Inr (), g\<lparr>http_client := Some c\<rparr>) \<and>
           auth c = Some (u, p) \<and> header c ''Authorization'' = None"
    by blast
next
  assume a: "truthy (getenv env ''KIBANA_URL'') \<and> getenv env ''KIBANA_API_KEY'' = Some [] \<and>
    \<not> (truthy (getenv env ''KIBANA_USERNAME'') \<and> truthy (getenv env ''KIBANA_PASSWORD''))"
  then have "\<not> truthy (getenv env ''KIBANA_API_KEY'')" by simp
  with a show "configure_http_client env g =
        (Inl (ValueError
           ''Kibana authentication not configured. Set KIBANA_API_KEY or both KIBANA_USERNAME/PASSWORD.''),
         g)"
    by (simp add: configure_no_credentials auth_not_configured_def)
next
  assume a: "truthy (getenv env ''KIBANA_URL'') \<and>
    getenv env ''KIBANA_API_KEY'' = Some k \<and> k \<noteq> [] \<and>
    (getenv env ''KIBANA_USERNAME'' = Some [] \<or> getenv env ''KIBANA_PASSWORD'' = Some [])"
  let ?c = "\<lparr>base_url = str_of (getenv env ''KIBANA_URL''),
         headers = [(''kbn-xsrf'', ''true''), (''Content-Type'', ''application/json''),
                    (''Authorization'', auth_header k)],
         timeout = 30, verify = False, auth = None\<rparr>"
  from a have "truthy (getenv env ''KIBANA_URL'')" "truthy (getenv env ''KIBANA_API_KEY'')"
    by simp_all
  from configure_api_key [OF this, of g] a
  have "configure_http_client env g = (Inr (), g\<lparr>http_client := Some ?c\<rparr>)" by simp
  moreover have "auth ?c = None" by simp
  moreover have "header ?c ''Authorization'' = Some (auth_header k)" by (simp add: header_def)
  ultimately show "\<exists>c. configure_http_client env g = (Inr (), g\<lparr>http_client := Some c\<rparr>) \<and>
           auth c = None \<and> header c ''Authorization'' = Some (auth_header k)"
    by blast
qed

theorem empty_credentials_are_absent_witness:
  "getenv env_empty_key ''KIBANA_API_KEY'' = Some [] \<and>
   configure_http_client env_empty_key no_client =
     configure_http_client (env_empty_key(''KIBANA_API_KEY'' := None)) no_client \<and>
   truthy (getenv env_empty_key ''KIBANA_URL'') \<and>
   getenv env_empty_key ''KIBANA_USERNAME'' = Some ''elastic'' \<and>
   getenv env_empty_key ''KIBANA_PASSWORD'' = Some ''changeme'' \<and>
   (\<exists>c. configure_http_client env_empty_key no_client =
          (Inr (), no_client\<lparr>http_client := Some c\<rparr>) \<and>
        auth c = Some (''elastic'', ''changeme'') \<and> header c ''Authorization'' = None) \<and>
   truthy (getenv env_empty_key_only ''KIBANA_URL'') \<and>
   getenv env_empty_key_only ''KIBANA_API_KEY'' = Some [] \<and>
   \<not> (truthy (getenv env_empty_key_only ''KIBANA_USERNAME'') \<and>
      truthy (getenv env_empty_key_only ''KIBANA_PASSWORD'')) \<and>
   configure_http_client env_empty_key_only no_client =
     (Inl (ValueError
        ''Kibana authentication not configured. Set KIBANA_API_KEY or both KIBANA_USERNAME/PASSWORD.''),
      no_client) \<and>
   getenv env_empty_password ''KIBANA_PASSWORD'' = Some [] \<and>
   configure_http_client env_empty_password no_client =
     configure_http_client
       (env_empty_password(''KIBANA_USERNAME'' := None, ''KIBANA_PASSWORD'' := None)) no_client \<and>
   truthy (getenv env_empty_password ''KIBANA_URL'') \<and>
   getenv env_empty_password ''KIBANA_API_KEY'' = None \<and>
   configure_http_client env_empty_password no_client =
     (Inl (ValueError
        ''Kibana authentication not configured. Set KIBANA_API_KEY or both KIBANA_USERNAME/PASSWORD.''),
      no_client) \<and>
   truthy (getenv env_key_empty_password ''KIBANA_URL'') \<and>
   getenv env_key_empty_password ''KIBANA_API_KEY'' = Some ''abc'' \<and>
   getenv env_key_empty_password ''KIBANA_PASSWORD'' = Some [] \<and>
   (\<exists>c. configure_http_client env_key_empty_password no_client =
          (Inr (), no_client\<lparr>http_client := Some c\<rparr>) \<and>
        auth c = None \<and> header c ''Authorization'' = Some ''ApiKey abc'')"
proof -
  have k: "getenv env_empty_key ''KIBANA_API_KEY'' = Some []"
    "truthy (getenv env_empty_key ''KIBANA_URL'')"
    "getenv env_empty_key ''KIBANA_USERNAME'' = Some ''elastic''"
    "getenv env_empty_key ''KIBANA_PASSWORD'' = Some ''changeme''"
    by (simp_all add: getenv_def env_empty_key_def)
  have ne: "''elastic'' \<noteq> []" "''changeme'' \<noteq> []" "''abc'' \<noteq> []"
    by simp_all
  have o: "truthy (getenv env_empty_key_only ''KIBANA_URL'')"
    "getenv env_empty_key_only ''KIBANA_API_KEY'' = Some []"
    "\<not> (truthy (getenv env_empty_key_only ''KIBANA_USERNAME'') \<and>
       truthy (getenv env_empty_key_only ''KIBANA_PASSWORD''))"
    by (simp_all add: getenv_def env_empty_key_only_def)
  have p: "getenv env_empty_password ''KIBANA_PASSWORD'' = Some []"
    "truthy (getenv env_empty_password ''KIBANA_URL'')"
    "getenv env_empty_password ''KIBANA_API_KEY'' = None"
    by (simp_all add: getenv_def env_empty_password_def)
  have q: "truthy (getenv env_key_empty_password ''KIBANA_URL'')"
    "getenv env_key_empty_password ''KIBANA_API_KEY'' = Some ''abc''"
    "getenv env_key_empty_password ''KIBANA_PASSWORD'' = Some []"
    by (simp_all add: getenv_def env_key_empty_password_def)
  from empty_credentials_are_absent
         [of env_empty_key no_client "''elastic''" "''changeme''"] k ne
  have 1: "configure_http_client env_empty_key no_client =
     configure_http_client (env_empty_key(''KIBANA_API_KEY'' := None)) no_client"
    and 2: "\<exists>c. configure_http_client env_empty_key no_client =
          (Inr (), no_client\<lparr>http_client := Some c\<rparr>) \<and>
        auth c = Some (''elastic'', ''changeme'') \<and> header c ''Authorization'' = None"
    by blast+
  from empty_credentials_are_absent [of env_empty_key_only no_client] o
  have 3: "configure_http_client env_empty_key_only no_client =
     (Inl (ValueError
        ''Kibana authentication not configured. Set KIBANA_API_KEY or both KIBANA_USERNAME/PASSWORD.''),
      no_client)"
    by blast
  from empty_credentials_are_absent [of env_empty_password no_client] p
  have 4: "configure_http_client env_empty_password no_client =
     configure_http_client
       (env_empty_password(''KIBANA_USERNAME'' := None, ''KIBANA_PASSWORD'' := None)) no_client"
    and 5: "configure_http_client env_empty_password no_client =
     (Inl (ValueError
        ''Kibana authentication not configured. Set KIBANA_API_KEY or both KIBANA_USERNAME/PASSWORD.''),
      no_client)"
    by blast+
  have h: "auth_header ''abc'' = ''ApiKey abc''"
    by (simp add: auth_header_def string_ops)
  from empty_credentials_are_absent
         [of env_key_empty_password no_client _ _ "''abc''"] q ne
  have "\<exists>c. configure_http_client env_key_empty_password no_client =
          (Inr (), no_client\<lparr>http_client := Some c\<rparr>) \<and>
        auth c = None \<and> header c ''Authorization'' = Some (auth_header ''abc'')"
    by blast
  then have 6: "\<exists>c. configure_http_client env_key_empty_password no_client =
          (Inr (), no_client\<lparr>http_client := Some c\<rparr>) \<and>
        auth c = None \<and> header c ''Authorization'' = Some ''ApiKey abc''"
    by (simp only: h)
  from k o p q 1 2 3 4 5 6 show ?thesis by blast
qed

section \<open>What the tool handlers return\<close>

text \<open>
  C3.  For a status outside open, acknowledged and closed, \<^verbatim>\<open>adjust_alert_status\<close>
  returns one text item that quotes the rejected value and lists the valid ones; the
  result does not depend on the wrapper or on the backend-call function, and the backend
  state is unchanged, so neither is entered.  For a status in the set the handler's
  result is the wrapper's, called with the tool name, the backend-call function, the
  client and the two arguments.
\<close>

theorem invalid_status_short_circuits:
  "(new_status \<notin> {''open'', ''acknowledged'', ''closed''} \<longrightarrow>
      adjust_alert_status safely impl g alert_id new_status w =
        (Inr [TextContent (''Invalid status '' @ [CHR 0x27] @ new_status @ [CHR 0x27] @
                           ''. Must be one of ['open', 'acknowledged', 'closed'].'')], w)) \<and>
   (new_status \<in> {''open'', ''acknowledged'', ''closed''} \<longrightarrow>
      adjust_alert_status safely impl g alert_id new_status w =
        safely ''adjust_alert_status'' impl (http_client g)
          [(''alert_id'', PStr alert_id), (''new_status'', PStr new_status)] w)"
  by (simp add: adjust_alert_status_def valid_statuses_def err_msg_def repr_list_def repr_str_def)

theorem invalid_status_short_circuits_witness:
  "''resolved'' \<notin> {''open'', ''acknowledged'', ''closed''} \<and>
   adjust_alert_status execute_tool_safely recording_backend no_client ''a1'' ''resolved'' [] =
     (Inr [TextContent
        ''Invalid status 'resolved'. Must be one of ['open', 'acknowledged', 'closed'].''], []) \<and>
   ''closed'' \<in> {''open'', ''acknowledged'', ''closed''} \<and>
   adjust_alert_status execute_tool_safely recording_backend no_client ''a1'' ''closed'' [] =
     (Inr [TextContent ''ok''], [[(''alert_id'', PStr ''a1''), (''new_status'', PStr ''closed'')]])"
  using invalid_status_short_circuits
          [of "''resolved''" execute_tool_safely recording_backend no_client "''a1''" "[]"]
        invalid_status_short_circuits
          [of "''closed''" execute_tool_safely recording_backend no_client "''a1''" "[]"]
  by (simp add: execute_tool_safely_def recording_backend_def no_client_def)

text \<open>
  C8.  \<^verbatim>\<open>get_alerts\<close> called without a limit hands the wrapper \<^verbatim>\<open>limit=20\<close>, and
  called without a search text hands it \<^verbatim>\<open>search_text="*"\<close>; an argument that is given
  is handed over as it is, whatever its value: the handler checks nothing.
\<close>

theorem get_alerts_defaults:
  "get_alerts safely impl g None None w =
     safely ''get_alerts'' impl (http_client g)
       [(''limit'', PInt 20), (''search_text'', PStr ''*'')] w \<and>
   get_alerts safely impl g (Some n) None w =
     safely ''get_alerts'' impl (http_client g)
       [(''limit'', PInt n), (''search_text'', PStr ''*'')] w \<and>
   get_alerts safely impl g None (Some s) w =
     safely ''get_alerts'' impl (http_client g)
       [(''limit'', PInt 20), (''search_text'', PStr s)] w \<and>
   get_alerts safely impl g (Some n) (Some s) w =
     safely ''get_alerts'' impl (http_client g)
       [(''limit'', PInt n), (''search_text'', PStr s)] w"
  by (simp add: get_alerts_def)

lemma execute_tool_safely_failure:
  assumes "impl c args w = (Inl e, w')"
  shows "execute_tool_safely name impl c args w = (Inr [TextContent (failure_text name e)], w')"
  using assms by (simp add: execute_tool_safely_def)

lemma failure_text_names_tool: "sublist name (failure_text name e)"
  unfolding failure_text_def sublist_def by (metis append.assoc)

lemma failure_text_has_diagnostic: "sublist (diagnostic e) (failure_text name e)"
  unfolding failure_text_def sublist_def by (metis append.assoc append_Nil2)

text \<open>
  C1.  With the wrapper as the specification describes it: whenever the backend-call
  function of a tool fails on the arguments the handler passes (for
  \<^verbatim>\<open>adjust_alert_status\<close> that is when the status is valid, since otherwise the
  function is not called), with whichever class of failure, the handler returns normally
  with exactly one text item, and the text contains the tool's name and the failure's
  diagnostic.
\<close>

theorem tool_failures_become_text:
  "(call_tag_alert (http_client g)
      [(''alert_id'', PStr alert_id), (''tags_to_add'', PStrList tags)] w = (Inl e, w') \<longrightarrow>
      (\<exists>t. tag_alert execute_tool_safely call_tag_alert g alert_id tags w =
             (Inr [TextContent t], w') \<and>
           sublist ''tag_alert'' t \<and> sublist (diagnostic e) t)) \<and>
   (new_status \<in> {''open'', ''acknowledged'', ''closed''} \<and>
    call_adjust_alert_status (http_client g)
      [(''alert_id'', PStr alert_id), (''new_status'', PStr new_status)] w = (Inl e, w') \<longrightarrow>
      (\<exists>t. adjust_alert_status execute_tool_safely call_adjust_alert_status g alert_id new_status w =
             (Inr [TextContent t], w') \<and>
           sublist ''adjust_alert_status'' t \<and> sublist (diagnostic e) t)) \<and>
   (call_get_alerts (http_client g)
      [(''limit'', PInt (case limit of None \<Rightarrow> 20 | Some n \<Rightarrow> n)),
       (''search_text'', PStr (case search_text of None \<Rightarrow> ''*'' | Some s \<Rightarrow> s))] w =
        (Inl e, w') \<longrightarrow>
      (\<exists>t. get_alerts execute_tool_safely call_get_alerts g limit search_text w =
             (Inr [TextContent t], w') \<and>
           sublist ''get_alerts'' t \<and> sublist (diagnostic e) t))"
proof (intro conjI impI)
  assume "call_tag_alert (http_client g)
      [(''alert_id'', PStr alert_id), (''tags_to_add'', PStrList tags)] w = (Inl e, w')"
  then have "tag_alert execute_tool_safely call_tag_alert g alert_id tags w =
      (Inr [TextContent (failure_text ''tag_alert'' e)], w')"
    by (simp add: tag_alert_def execute_tool_safely_failure)
  then show "\<exists>t. tag_alert execute_tool_safely call_tag_alert g alert_id tags w =
             (Inr [TextContent t], w') \<and>
           sublist ''tag_alert'' t \<and> sublist (diagnostic e) t"
    using failure_text_names_tool failure_text_has_diagnostic by blast
next
  assume "new_status \<in> {''open'', ''acknowledged'', ''closed''} \<and>
    call_adjust_alert_status (http_client g)
      [(''alert_id'', PStr alert_id), (''new_status'', PStr new_status)] w = (Inl e, w')"
  then have "adjust_alert_status execute_tool_safely call_adjust_alert_status g alert_id new_status w =
      (Inr [TextContent (failure_text ''adjust_alert_status'' e)], w')"
    by (simp add: adjust_alert_status_def valid_statuses_def execute_tool_safely_failure)
  then show "\<exists>t. adjust_alert_status execute_tool_safely call_adjust_alert_status g alert_id new_status w =
             (Inr [TextContent t], w') \<and>
           sublist ''adjust_alert_status'' t \<and> sublist (diagnostic e) t"
    using failure_text_names_tool failure_text_has_diagnostic by blast
next
  assume "call_get_alerts (http_client g)
      [(''limit'', PInt (case limit of None \<Rightarrow> 20 | Some n \<Rightarrow> n)),
       (''search_text'', PStr (case search_text of None \<Rightarrow> ''*'' | Some s \<Rightarrow> s))] w =
        (Inl e, w')"
  then have "get_alerts execute_tool_safely call_get_alerts g limit search_text w =
      (Inr [TextContent (failure_text ''get_alerts'' e)], w')"
    by (simp add: get_alerts_def execute_tool_safely_failure)
  then show "\<exists>t. get_alerts execute_tool_safely call_get_alerts g limit search_text w =
             (Inr [TextContent t], w') \<and>
           sublist ''get_alerts'' t \<and> sublist (diagnostic e) t"
    using failure_text_names_tool failure_text_has_diagnostic by blast
qed

theorem tool_failures_become_text_witness:
  "failing_backend (BackendTimeoutError ''no response within 30 s'') (http_client no_client)
     [(''alert_id'', PStr ''a1''), (''tags_to_add'', PStrList [''x'', ''y''])] [] =
     (Inl (BackendTimeoutError ''no response within 30 s''),
      [[(''alert_id'', PStr ''a1''), (''tags_to_add'', PStrList [''x'', ''y''])]]) \<and>
   (\<exists>t. tag_alert execute_tool_safely
          (failing_backend (BackendTimeoutError ''no response within 30 s''))
          no_client ''a1'' [''x'', ''y''] [] =
        (Inr [TextContent t],
         [[(''alert_id'', PStr ''a1''), (''tags_to_add'', PStrList [''x'', ''y''])]]) \<and>
      sublist ''tag_alert'' t \<and> sublist ''no response within 30 s'' t) \<and>
   ''closed'' \<in> {''open'', ''acknowledged'', ''closed''} \<and>
   failing_backend (BackendRejectedError 403 ''HTTP 403 Forbidden'') (http_client no_client)
     [(''alert_id'', PStr ''a1''), (''new_status'', PStr ''closed'')] [] =
     (Inl (BackendRejectedError 403 ''HTTP 403 Forbidden''),
      [[(''alert_id'', PStr ''a1''), (''new_status'', PStr ''closed'')]]) \<and>
   (\<exists>t. adjust_alert_status execute_tool_safely
          (failing_backend (BackendRejectedError 403 ''HTTP 403 Forbidden''))
          no_client ''a1'' ''closed'' [] =
        (Inr [TextContent t], [[(''alert_id'', PStr ''a1''), (''new_status'', PStr ''closed'')]]) \<and>
      sublist ''adjust_alert_status'' t \<and> sublist ''HTTP 403 Forbidden'' t) \<and>
   failing_backend (BackendConnectivityError ''connection refused'') (http_client no_client)
     [(''limit'', PInt 20), (''search_text'', PStr ''*'')] [] =
     (Inl (BackendConnectivityError ''connection refused''),
      [[(''limit'', PInt 20), (''search_text'', PStr ''*'')]]) \<and>
   (\<exists>t. get_alerts execute_tool_safely
          (failing_backend (BackendConnectivityError ''connection refused''))
          no_client None None [] =
        (Inr [TextContent t], [[(''limit'', PInt 20), (''search_text'', PStr ''*'')]]) \<and>
      sublist ''get_alerts'' t \<and> sublist ''connection refused'' t)"
proof -
  have 1: "failing_backend (BackendTimeoutError ''no response within 30 s'') (http_client no_client)
     [(''alert_id'', PStr ''a1''), (''tags_to_add'', PStrList [''x'', ''y''])] [] =
     (Inl (BackendTimeoutError ''no response within 30 s''),
      [[(''alert_id'', PStr ''a1''), (''tags_to_add'', PStrList [''x'', ''y''])]])"
    by (simp add: failing_backend_def)
  have 2: "''closed'' \<in> {''open'', ''acknowledged'', ''closed''} \<and>
   failing_backend (BackendRejectedError 403 ''HTTP 403 Forbidden'') (http_client no_client)
     [(''alert_id'', PStr ''a1''), (''new_status'', PStr ''closed'')] [] =
     (Inl (BackendRejectedError 403 ''HTTP 403 Forbidden''),
      [[(''alert_id'', PStr ''a1''), (''new_status'', PStr ''closed'')]])"
    by (simp add: failing_backend_def)
  have 3: "failing_backend (BackendConnectivityError ''connection refused'') (http_client no_client)
     [(''limit'', PInt (case None of None \<Rightarrow> 20 | Some n \<Rightarrow> n)),
      (''search_text'', PStr (case None of None \<Rightarrow> ''*'' | Some s \<Rightarrow> s))] [] =
     (Inl (BackendConnectivityError ''connection refused''),
      [[(''limit'', PInt 20), (''search_text'', PStr ''*'')]])"
    by (simp add: failing_backend_def)
  note inst = tool_failures_become_text
    [where w = "[]" and g = no_client and alert_id = "''a1''" and tags = "[''x'', ''y'']"
       and new_status = "''closed''" and limit = None and search_text = None]
  note t1 = inst
    [where call_tag_alert = "failing_backend (BackendTimeoutError ''no response within 30 s'')"
       and e = "BackendTimeoutError ''no response within 30 s''",
     THEN conjunct1, rule_format, OF 1]
  note t2 = inst
    [where call_adjust_alert_status = "failing_backend (BackendRejectedError 403 ''HTTP 403 Forbidden'')"
       and e = "BackendRejectedError 403 ''HTTP 403 Forbidden''",
     THEN conjunct2, THEN conjunct1, rule_format, OF 2]
  note t3 = inst
    [where call_get_alerts = "failing_backend (BackendConnectivityError ''connection refused'')"
       and e = "BackendConnectivityError ''connection refused''",
     THEN conjunct2, THEN conjunct2, rule_format, OF 3]
  from 1 2 3 t1 t2 t3 show ?thesis by simp
qed

section \<open>Startup and shutdown of the server\<close>

lemma configure_outcome:
  obtains (raised) e where "is_Exception e" "\<And>g. configure_http_client env g = (Inl e, g)"
  | (created) c where "\<And>g. configure_http_client env g = (Inr (), g\<lparr>http_client := Some c\<rparr>)"
proof (cases rule: configure_cases [of env])
  case no_url
  then have "\<And>g. configure_http_client env g = (Inl url_not_set, g)"
    by (simp add: configure_no_url)
  moreover have "is_Exception url_not_set" by (simp add: url_not_set_def)
  ultimately show ?thesis by (rule raised [rotated])
next
  case api_key
  then show ?thesis using created configure_api_key by blast
next
  case basic
  then show ?thesis using created configure_basic by blast
next
  case none
  then have "\<And>g. configure_http_client env g = (Inl auth_not_configured, g)"
    by (simp add: configure_no_credentials)
  moreover have "is_Exception auth_not_configured" by (simp add: auth_not_configured_def)
  ultimately show ?thesis by (rule raised [rotated])
qed

lemma run_server_not_created:
  assumes "\<not> client_created env"
  shows "run_server env rt g = (None, g\<lparr>http_client := None\<rparr>, [])"
proof (cases rule: configure_outcome [of env])
  case (raised e)
  then show ?thesis by (simp add: run_server_def)
next
  case (created c)
  with assms show ?thesis by (simp add: client_created_def)
qed

lemma run_server_fresh:
  assumes "client_created env"
  shows "events (run_server env (Fresh m a) g) = loop_trace m @ [AcloseCalled]"
proof (cases rule: configure_outcome [of env])
  case (raised e)
  with assms show ?thesis by (simp add: client_created_def)
next
  case (created c)
  then show ?thesis
    by (cases a) (simp_all add: run_server_def events_def close_http_client_def Let_def)
qed

lemma run_server_nested:
  assumes "client_created env"
  shows "events (run_server env Nested g) = []"
    and "final_client (run_server env Nested g) \<noteq> None"
proof -
  have "events (run_server env Nested g) = [] \<and> final_client (run_server env Nested g) \<noteq> None"
  proof (cases rule: configure_outcome [of env])
    case (raised e)
    with assms show ?thesis by (simp add: client_created_def)
  next
    case (created c)
    then show ?thesis
      by (simp add: run_server_def events_def final_client_def Let_def)
  qed
  then show "events (run_server env Nested g) = []"
    and "final_client (run_server env Nested g) \<noteq> None"
    by simp_all
qed

lemma loop_trace_no_release: "count_list (loop_trace m) AcloseCalled = 0"
  by (cases m) (auto simp add: count_list_0_iff)

text \<open>
  C5, as stated, at a start from a thread whose event loop is already running: the client
  was created, yet \<^verbatim>\<open>aclose\<close> is never called, because \<^verbatim>\<open>asyncio.run\<close> raises
  \<^verbatim>\<open>RuntimeError\<close> before running \<^verbatim>\<open>close_http_client\<close> and the handler of line 151
  only logs it.
\<close>

theorem release_skipped_when_refused:
  "\<not> (client_created env_api_key \<longrightarrow>
       release_count (events (run_server env_api_key Nested no_client)) = 1)"
  by (simp add: client_created_def run_server_def configure_http_client_def getenv_def
        env_api_key_def no_client_def events_def release_count_def Let_def)

text \<open>
  C5, amended.  If credential resolution fails, the serving loop is never entered, no
  request is served and nothing is released; the global client stays \<^verbatim>\<open>None\<close>.  If
  the client was created and no event loop is running in the calling thread, \<^verbatim>\<open>aclose\<close>
  is called exactly once, as the last event, after \<^verbatim>\<open>mcp.run()\<close> has ended, however
  it ended.  If the client was created and an event loop is already running in the calling
  thread, \<^verbatim>\<open>aclose\<close> is not called and the client stays in the global, unreleased.
\<close>

theorem run_server_lifecycle:
  "(\<not> client_created env \<longrightarrow>
      events (run_server env rt g) = [] \<and> final_client (run_server env rt g) = None) \<and>
   (client_created env \<longrightarrow>
      events (run_server env (Fresh m a) g) = loop_trace m @ [AcloseCalled] \<and>
      release_count (events (run_server env (Fresh m a) g)) = 1 \<and>
      events (run_server env Nested g) = [] \<and>
      release_count (events (run_server env Nested g)) = 0 \<and>
      final_client (run_server env Nested g) \<noteq> None)"
proof (intro conjI impI)
  assume a: "\<not> client_created env"
  show "events (run_server env rt g) = []"
    by (simp add: run_server_not_created [OF a] events_def)
  show "final_client (run_server env rt g) = None"
    by (simp add: run_server_not_created [OF a] final_client_def)
next
  assume a: "client_created env"
  show "events (run_server env (Fresh m a) g) = loop_trace m @ [AcloseCalled]"
    by (rule run_server_fresh [OF a])
  show "release_count (events (run_server env (Fresh m a) g)) = 1"
    by (simp add: run_server_fresh [OF a] release_count_def loop_trace_no_release)
  show "events (run_server env Nested g) = []"
    by (rule run_server_nested(1) [OF a])
  show "release_count (events (run_server env Nested g)) = 0"
    by (simp add: run_server_nested(1) [OF a] release_count_def)
  show "final_client (run_server env Nested g) \<noteq> None"
    by (rule run_server_nested(2) [OF a])
qed

theorem run_server_lifecycle_witness:
  "\<not> client_created env_neither \<and>
   events (run_server env_neither rt_normal no_client) = [] \<and>
   final_client (run_server env_neither rt_normal no_client) = None \<and>
   \<not> client_created env_no_url \<and>
   events (run_server env_no_url rt_normal no_client) = [] \<and>
   client_created env_api_key \<and>
   events (run_server env_api_key rt_normal no_client) =
     [LoopEntered, RequestServed ''get_alerts'', RequestServed ''tag_alert'', LoopEnded,
      AcloseCalled] \<and>
   release_count (events (run_server env_api_key rt_normal no_client)) = 1 \<and>
   events (run_server env_api_key rt_interrupt no_client) =
     [LoopEntered, LoopEnded, AcloseCalled] \<and>
   events (run_server env_api_key rt_not_started no_client) = [AcloseCalled] \<and>
   events (run_server env_api_key Nested no_client) = [] \<and>
   release_count (events (run_server env_api_key Nested no_client)) = 0 \<and>
   final_client (run_server env_api_key Nested no_client) \<noteq> None \<and>
   client_created env_basic \<and>
   events (run_server env_basic rt_crash no_client) =
     [LoopEntered, RequestServed ''get_alerts'', LoopEnded, AcloseCalled] \<and>
   release_count (events (run_server env_basic rt_crash no_client)) = 1"
proof -
  have n: "\<not> client_created env_neither" "\<not> client_created env_no_url"
    by (simp_all add: client_created_def configure_http_client_def getenv_def
          env_neither_def env_no_url_def)
  have c: "client_created env_api_key" "client_created env_basic"
    by (simp_all add: client_created_def configure_http_client_def getenv_def
          env_api_key_def env_basic_def)
  from n(1) run_server_lifecycle [of env_neither rt_normal no_client]
  have 1: "events (run_server env_neither rt_normal no_client) = []"
    "final_client (run_server env_neither rt_normal no_client) = None"
    by simp_all
  from n(2) run_server_lifecycle [of env_no_url rt_normal no_client]
  have 2: "events (run_server env_no_url rt_normal no_client) = []"
    by simp
  from c(1) run_server_lifecycle
    [of env_api_key _ no_client "Served [''get_alerts'', ''tag_alert''] None" None]
  have 3: "events (run_server env_api_key rt_normal no_client) =
     [LoopEntered, RequestServed ''get_alerts'', RequestServed ''tag_alert'', LoopEnded,
      AcloseCalled]"
    "release_count (events (run_server env_api_key rt_normal no_client)) = 1"
    "events (run_server env_api_key Nested no_client) = []"
    "release_count (events (run_server env_api_key Nested no_client)) = 0"
    "final_client (run_server env_api_key Nested no_client) \<noteq> None"
    by (simp_all add: rt_normal_def release_count_def)
  from c(1) run_server_lifecycle
    [of env_api_key _ no_client "Served [] (Some (NonException ''KeyboardInterrupt''))" None]
  have 4: "events (run_server env_api_key rt_interrupt no_client) =
     [LoopEntered, LoopEnded, AcloseCalled]"
    by (simp add: rt_interrupt_def)
  from c(1) run_server_lifecycle
    [of env_api_key _ no_client "NotStarted (OtherException ''transport unavailable'')" None]
  have 5: "events (run_server env_api_key rt_not_started no_client) = [AcloseCalled]"
    by (simp add: rt_not_started_def)
  from c(2) run_server_lifecycle
    [of env_basic _ no_client "Served [''get_alerts''] (Some (OtherException ''connection reset''))" None]
  have 6: "events (run_server env_basic rt_crash no_client) =
     [LoopEntered, RequestServed ''get_alerts'', LoopEnded, AcloseCalled]"
    "release_count (events (run_server env_basic rt_crash no_client)) = 1"
    by (simp_all add: rt_crash_def release_count_def)
  from n c 1 2 3 4 5 6 show ?thesis by blast
qed

end
